theory Spec2Isabelle
  imports Complex_Main "HOL-Library.Word"
begin

section \<open>Numbers, typed arrays and the heap\<close>

text \<open>
  The film-look pipeline of \<^verbatim>\<open>src/App.tsx\<close> (\<^verbatim>\<open>clamp\<close>, \<^verbatim>\<open>blur\<close>,
  \<^verbatim>\<open>blurSeparate\<close>, \<^verbatim>\<open>applyFilmLook\<close>).

  JavaScript numbers are modelled as real numbers and \<^verbatim>\<open>Math.exp\<close> as the real
  exponential: arithmetic on doubles is exact here, its rounding is not modelled. The
  stores into the \<^verbatim>\<open>Float32Array\<close>s round to binary32 (\<open>fround32\<close>) and the stores
  into the \<^verbatim>\<open>Uint8ClampedArray\<close>s round to bytes (\<open>toUint8Clamp\<close>), as the language
  defines them. The one NaN the pipeline can meet with real parameters comes from reading a
  typed array past its end (the read gives \<^verbatim>\<open>undefined\<close>, arithmetic turns it into NaN);
  it is modelled by \<open>None\<close>. The elements of a \<^verbatim>\<open>Uint8ClampedArray\<close> are 8-bit words.
  \<^verbatim>\<open>async\<close>/\<^verbatim>\<open>await\<close> is sequential here and is dropped.
\<close>

type_synonym byte = "8 word"

record FilmLookParams =
  toneA :: real
  glowThreshold :: real
  glowStrength :: real
  glowBlur :: real
  grainStrength :: real
  softFocusStrength :: real
  softFocusRadius :: real

definition defaultParams :: FilmLookParams where
  "defaultParams = \<lparr>toneA = 5.0, glowThreshold = 0.7, glowStrength = 0.4, glowBlur = 40,
     grainStrength = 0.02, softFocusStrength = 0.3, softFocusRadius = 10\<rparr>"

text \<open>\<^verbatim>\<open>clamp(v) = Math.min(Math.max(v, 0), 1)\<close>\<close>

definition clamp :: "real \<Rightarrow> real" where
  "clamp v = min (max v 0) 1"

text \<open>
  The conversion of a number stored into a \<^verbatim>\<open>Uint8ClampedArray\<close> (ECMAScript
  ToUint8Clamp): clamp to 0..255, then round to the nearest integer, ties to even.
\<close>

definition toUint8Clamp :: "real \<Rightarrow> byte" where
  "toUint8Clamp x =
     (if x \<le> 0 then 0
      else if 255 \<le> x then 255
      else (let f = \<lfloor>x\<rfloor> in
        if of_int f + 1 / 2 < x then word_of_int (f + 1)
        else if x < of_int f + 1 / 2 then word_of_int f
        else if even f then word_of_int f
        else word_of_int (f + 1)))"

text \<open>A store of a possibly-NaN number: NaN is stored as 0.\<close>

definition storeU8 :: "real option \<Rightarrow> byte" where
  "storeU8 v = (case v of None \<Rightarrow> 0 | Some x \<Rightarrow> toUint8Clamp x)"

text \<open>A read \<^verbatim>\<open>xs[k]\<close> of a typed array as a number; \<open>None\<close> past the end.\<close>

definition readU8 :: "byte list \<Rightarrow> nat \<Rightarrow> real option" where
  "readU8 xs k = (if k < length xs then Some (real (unat (xs ! k))) else None)"

text \<open>A binary arithmetic expression on possibly-NaN operands.\<close>

definition nan2 :: "(real \<Rightarrow> real \<Rightarrow> real) \<Rightarrow> real option \<Rightarrow> real option \<Rightarrow> real option" where
  "nan2 f a b = (case a of None \<Rightarrow> None | Some x \<Rightarrow> (case b of None \<Rightarrow> None | Some y \<Rightarrow> Some (f x y)))"

text \<open>
  The store of a number into a \<^verbatim>\<open>Float32Array\<close>: the nearest IEEE binary32 value, ties
  to the even significand. A binary32 value is a multiple of \<open>2 ^ (e - 23)\<close> in the
  binade \<open>2 ^ e \<le> \<bar>x\<bar> < 2 ^ (e + 1)\<close>, with \<open>e\<close> not below -126 (below that
  binade the values are the subnormal multiples of \<open>2 ^ (-149)\<close>, and what is less than
  half of the smallest becomes 0). Above the binary32 range the store gives an infinity,
  which the reals do not have; the pipeline stores numbers between 0 and 1 only.
\<close>

definition roundHalfEven :: "real \<Rightarrow> int" where
  "roundHalfEven y =
     (let f = \<lfloor>y\<rfloor> in
      if y < of_int f + 1 / 2 then f
      else if of_int f + 1 / 2 < y then f + 1
      else if even f then f
      else f + 1)"

definition pow2 :: "int \<Rightarrow> real" where
  "pow2 k = (if 0 \<le> k then 2 ^ nat k else 1 / 2 ^ nat (- k))"

definition fround32 :: "real \<Rightarrow> real" where
  "fround32 x =
     (if x = 0 then 0
      else (let e = max \<lfloor>log 2 \<bar>x\<bar>\<rfloor> (- 126);
                q = pow2 (e - 23)
            in of_int (roundHalfEven (x / q)) * q))"

text \<open>
  The heap holds the \<^verbatim>\<open>Uint8ClampedArray\<close>s: the input's pixel data, the arrays the
  pipeline allocates and the ones the canvas hands back. References below \<open>nextRef\<close>
  are allocated.
\<close>

type_synonym ref = nat

record heap =
  nextRef :: ref
  u8 :: "ref \<Rightarrow> byte list"

text \<open>
  What can be thrown: the RangeError of a typed-array \<^verbatim>\<open>set\<close> that does not fit, the
  \<^verbatim>\<open>Error("2D context not available")\<close> of the two blur functions, and the DOMException
  (an InvalidStateError or an IndexSizeError) of the canvas API.
\<close>

datatype error = RangeError | ContextUnavailable | DOMException

type_synonym 'a io = "heap \<Rightarrow> (error + 'a) \<times> heap"

definition andThen :: "'a io \<Rightarrow> ('a \<Rightarrow> 'b io) \<Rightarrow> 'b io" where
  "andThen m f hp = (case m hp of (Inl e, hp') \<Rightarrow> (Inl e, hp') | (Inr x, hp') \<Rightarrow> f x hp')"

text \<open>\<^verbatim>\<open>new Uint8ClampedArray(n)\<close>: a fresh array of \<open>n\<close> zeros.\<close>

definition newUint8ClampedArray :: "nat \<Rightarrow> ref io" where
  "newUint8ClampedArray n hp =
     (Inr (nextRef hp),
      hp\<lparr>nextRef := Suc (nextRef hp), u8 := (u8 hp)(nextRef hp := replicate n 0)\<rparr>)"

text \<open>
  \<^verbatim>\<open>arr.set(vals, off)\<close>: overwrites \<open>length vals\<close> elements from offset \<open>off\<close>;
  a RangeError when they do not fit.
\<close>

definition typedArraySet :: "ref \<Rightarrow> byte list \<Rightarrow> nat \<Rightarrow> unit io" where
  "typedArraySet a vals off hp =
     (if off + length vals \<le> length (u8 hp a)
      then (Inr (), hp\<lparr>u8 := (u8 hp)(a := take off (u8 hp a) @ vals @ drop (off + length vals) (u8 hp a))\<rparr>)
      else (Inl RangeError, hp))"

text \<open>\<^verbatim>\<open>for (let i = i0; i < len; i++) body\<close>; an exception leaves the loop.\<close>

function forLoop :: "nat \<Rightarrow> nat \<Rightarrow> (nat \<Rightarrow> unit io) \<Rightarrow> unit io" where
  "forLoop i len body hp =
     (if i < len
      then (case body i hp of
              (Inl e, hp') \<Rightarrow> (Inl e, hp')
            | (Inr u, hp') \<Rightarrow> forLoop (Suc i) len body hp')
      else (Inr (), hp))"
  by pat_completeness auto
termination
  by (relation "measure (\<lambda>(i, len, body, hp). len - i)") auto

declare forLoop.simps [simp del]

section \<open>The canvas\<close>

record ImageData =
  data :: ref
  width :: nat
  height :: nat

text \<open>
  \<^verbatim>\<open>new ImageData(data, sw, sh)\<close> shares the array and checks it against the
  dimensions: a DOMException unless the length is a nonzero multiple of 4 and the pixel
  count is \<open>sw\<close> times \<open>sh\<close> (HTML standard).
\<close>

definition newImageData :: "ref \<Rightarrow> nat \<Rightarrow> nat \<Rightarrow> ImageData io" where
  "newImageData d sw sh hp =
     (let n = length (u8 hp d) in
      if n = 0 \<or> n mod 4 \<noteq> 0 then (Inl DOMException, hp)
      else if sw = 0 \<or> (n div 4) mod sw \<noteq> 0 then (Inl DOMException, hp)
      else if (n div 4) div sw \<noteq> sh then (Inl DOMException, hp)
      else (Inr \<lparr>data = d, width = sw, height = sh\<rparr>, hp))"

text \<open>
  What the browser does is a parameter. \<open>getContext2d\<close>: whether
  \<^verbatim>\<open>canvas.getContext("2d")\<close> gives a context. \<open>drawOntoSelf pixels w h r\<close>: the bytes of
  a \<open>w\<close> by \<open>h\<close> canvas that received \<open>pixels\<close> with \<^verbatim>\<open>putImageData\<close> and was then drawn
  onto itself through the filter \<^verbatim>\<open>blur(r px)\<close>, by byte offset. \<open>drawOntoFresh\<close>: the same
  for a second, empty canvas that the first one is drawn into. \<open>random i\<close>: the result of
  the \<open>i\<close>-th call of \<^verbatim>\<open>Math.random()\<close> (counted from 0) during the invocation.
\<close>

record platform =
  getContext2d :: bool
  drawOntoSelf :: "byte list \<Rightarrow> nat \<Rightarrow> nat \<Rightarrow> real \<Rightarrow> nat \<Rightarrow> byte"
  drawOntoFresh :: "byte list \<Rightarrow> nat \<Rightarrow> nat \<Rightarrow> real \<Rightarrow> nat \<Rightarrow> byte"
  random :: "nat \<Rightarrow> real"

text \<open>
  \<^verbatim>\<open>ctx.getImageData(0, 0, w, h).data\<close>: a fresh array of \<open>w * h * 4\<close> bytes read off the
  canvas; a DOMException when \<open>w\<close> or \<open>h\<close> is 0.
\<close>

definition getImageData :: "(nat \<Rightarrow> byte) \<Rightarrow> nat \<Rightarrow> nat \<Rightarrow> ref io" where
  "getImageData bitmap w h hp =
     (if w = 0 \<or> h = 0 then (Inl DOMException, hp)
      else (Inr (nextRef hp),
            hp\<lparr>nextRef := Suc (nextRef hp), u8 := (u8 hp)(nextRef hp := map bitmap [0..<w * h * 4])\<rparr>))"

text \<open>\<^verbatim>\<open>blur(data, w, h, r)\<close>: one canvas, drawn onto itself.\<close>

definition blur :: "platform \<Rightarrow> ref \<Rightarrow> nat \<Rightarrow> nat \<Rightarrow> real \<Rightarrow> ref io" where
  "blur P d w h r hp =
     (if \<not> getContext2d P then (Inl ContextUnavailable, hp)
      else andThen (newImageData d w h)
             (\<lambda>img. getImageData (drawOntoSelf P (u8 hp (data img)) w h r) w h) hp)"

text \<open>\<^verbatim>\<open>blurSeparate(data, w, h, r)\<close>: a source canvas drawn into a destination canvas.\<close>

definition blurSeparate :: "platform \<Rightarrow> ref \<Rightarrow> nat \<Rightarrow> nat \<Rightarrow> real \<Rightarrow> ref io" where
  "blurSeparate P d w h r hp =
     (if \<not> getContext2d P then (Inl ContextUnavailable, hp)
      else andThen (newImageData d w h)
             (\<lambda>img. getImageData (drawOntoFresh P (u8 hp (data img)) w h r) w h) hp)"

section \<open>The pipeline\<close>

text \<open>
  The four \<^verbatim>\<open>Float32Array\<close>s \<^verbatim>\<open>R\<close>, \<^verbatim>\<open>G\<close>, \<^verbatim>\<open>B\<close>, \<^verbatim>\<open>lum\<close> are local, each written once at
  index \<open>i\<close> by iteration \<open>i\<close> of the first loop and only read afterwards; they are one
  list of per-pixel records. \<open>tonePixel\<close>, \<open>toneAt\<close> and \<open>toneMapGrade\<close> are the numbers
  the loop assigns, \<open>float32At\<close> and \<open>float32Arrays\<close> what the arrays hold after the
  store. An entry is \<open>None\<close> when the four floats are NaN: a read of
  \<^verbatim>\<open>px\<close> past its end makes that channel and the luminance NaN, so both masks and then
  all of \<^verbatim>\<open>R[i]\<close>, \<^verbatim>\<open>G[i]\<close>, \<^verbatim>\<open>B[i]\<close>, \<^verbatim>\<open>lum[i]\<close>.
\<close>

record graded =
  R :: real
  G :: real
  B :: real
  lum :: real

text \<open>The body of the loop "Tone map and grade" on the normalized channels.\<close>

definition tonePixel :: "real \<Rightarrow> real \<Rightarrow> real \<Rightarrow> real \<Rightarrow> graded" where
  "tonePixel a r0 g0 b0 =
     (let tc_r = 1 / (1 + exp (- a * (r0 - 0.5)));
          tc_g = 1 / (1 + exp (- a * (g0 - 0.5)));
          tc_b = 1 / (1 + exp (- a * (b0 - 0.5)));
          l = 0.2126 * tc_r + 0.7152 * tc_g + 0.0722 * tc_b;
          shadowM = clamp ((0.5 - l) * 2);
          highlightM = clamp ((l - 0.5) * 2)
      in \<lparr>R = clamp (tc_r + shadowM * - 0.05 + highlightM * 0.08),
          G = clamp (tc_g + shadowM * 0.0 + highlightM * 0.04),
          B = clamp (tc_b + shadowM * 0.05 + highlightM * - 0.02),
          lum = l\<rparr>)"

definition toneAt :: "byte list \<Rightarrow> real \<Rightarrow> nat \<Rightarrow> graded option" where
  "toneAt px a i =
     (case readU8 px (i * 4) of None \<Rightarrow> None | Some r \<Rightarrow>
     (case readU8 px (i * 4 + 1) of None \<Rightarrow> None | Some g \<Rightarrow>
     (case readU8 px (i * 4 + 2) of None \<Rightarrow> None | Some b \<Rightarrow>
        Some (tonePixel a (r / 255) (g / 255) (b / 255)))))"


text \<open>The stores \<^verbatim>\<open>lum[i] = l\<close>, \<^verbatim>\<open>R[i] = ...\<close>, \<^verbatim>\<open>G[i] = ...\<close>, \<^verbatim>\<open>B[i] = ...\<close>.\<close>

definition storeFloat32 :: "graded \<Rightarrow> graded" where
  "storeFloat32 t = \<lparr>R = fround32 (R t), G = fround32 (G t), B = fround32 (B t), lum = fround32 (lum t)\<rparr>"

definition float32At :: "byte list \<Rightarrow> real \<Rightarrow> nat \<Rightarrow> graded option" where
  "float32At px a i = map_option storeFloat32 (toneAt px a i)"

definition float32Arrays :: "byte list \<Rightarrow> nat \<Rightarrow> real \<Rightarrow> graded option list" where
  "float32Arrays px len a = map (float32At px a) [0..<len]"

text \<open>
  The body of the loop "Glow mask": the four bytes set at \<open>i * 4\<close>. This loop and the
  next read the floats at \<open>i < len\<close> only, and \<open>len\<close> is the length of the list.
\<close>

definition maskPixel :: "graded option list \<Rightarrow> real \<Rightarrow> nat \<Rightarrow> byte list" where
  "maskPixel flt thr i =
     (let m = (case flt ! i of None \<Rightarrow> 0 | Some t \<Rightarrow> if lum t > thr then 255 else 0)
      in [m, m, m, 255])"

text \<open>
  The body of the loop "Combine + grain". \<open>preClamp\<close> is the three sums handed to
  \<^verbatim>\<open>clamp\<close> (the colour with its glow, plus \<^verbatim>\<open>noise * wt\<close>); \<open>combinePixel\<close> is the
  four bytes set at \<open>i * 4\<close>. The sums and products are exact here and in the next loop;
  a product rounded as a double can fall on the other side of a tie of the byte store, so
  the bytes are stated below only where the arithmetic is exact on doubles as well (all
  three strengths 0), and otherwise the sums are.
\<close>

definition preClamp :: "platform \<Rightarrow> FilmLookParams \<Rightarrow> graded \<Rightarrow> byte list \<Rightarrow> nat \<Rightarrow>
    real option \<times> real option \<times> real option" where
  "preClamp P params t glow i =
     (let rr = map_option (\<lambda>v. R t + (v / 255) * glowStrength params) (readU8 glow (i * 4));
          gg = map_option (\<lambda>v. G t + (v / 255) * glowStrength params) (readU8 glow (i * 4 + 1));
          bb = map_option (\<lambda>v. B t + (v / 255) * glowStrength params) (readU8 glow (i * 4 + 2));
          noise = (random P i * 2 - 1) * grainStrength params;
          wt = 0.7 + 0.3 * lum t
      in (map_option (\<lambda>v. v + noise * wt) rr,
          map_option (\<lambda>v. v + noise * wt) gg,
          map_option (\<lambda>v. v + noise * wt) bb))"

definition combinePixel :: "platform \<Rightarrow> FilmLookParams \<Rightarrow> graded option list \<Rightarrow> byte list \<Rightarrow> nat \<Rightarrow> byte list" where
  "combinePixel P params flt glow i =
     (case flt ! i of
        None \<Rightarrow> [0, 0, 0, 255]
      | Some t \<Rightarrow>
         (case preClamp P params t glow i of
            (rr, gg, bb) \<Rightarrow>
              [storeU8 (map_option (\<lambda>v. clamp v * 255) rr),
               storeU8 (map_option (\<lambda>v. clamp v * 255) gg),
               storeU8 (map_option (\<lambda>v. clamp v * 255) bb),
               255]))"

text \<open>The body of the loop "Soft focus": the four bytes set at \<open>ix = i * 4\<close>.\<close>

definition blendPixel :: "real \<Rightarrow> byte list \<Rightarrow> byte list \<Rightarrow> nat \<Rightarrow> byte list" where
  "blendPixel s out soft i =
     (let ix = i * 4;
          r0 = map_option (\<lambda>v. v / 255) (readU8 out ix);
          g0 = map_option (\<lambda>v. v / 255) (readU8 out (ix + 1));
          b0 = map_option (\<lambda>v. v / 255) (readU8 out (ix + 2));
          r1 = map_option (\<lambda>v. v / 255) (readU8 soft ix);
          g1 = map_option (\<lambda>v. v / 255) (readU8 soft (ix + 1));
          b1 = map_option (\<lambda>v. v / 255) (readU8 soft (ix + 2))
      in [storeU8 (nan2 (\<lambda>x y. (x * (1 - s) + y * s) * 255) r0 r1),
          storeU8 (nan2 (\<lambda>x y. (x * (1 - s) + y * s) * 255) g0 g1),
          storeU8 (nan2 (\<lambda>x y. (x * (1 - s) + y * s) * 255) b0 b1),
          255])"

text \<open>
  \<^verbatim>\<open>applyFilmLook(imgData, w, h, params)\<close>. \<open>w\<close> and \<open>h\<close> are the pixel counts the caller
  passes (it rounds them from a decoded bitmap's size), so natural numbers.
\<close>

definition applyFilmLook :: "platform \<Rightarrow> ImageData \<Rightarrow> nat \<Rightarrow> nat \<Rightarrow> FilmLookParams \<Rightarrow> ImageData io" where
  "applyFilmLook P imgData w h params hp0 =
     (let len = w * h;
          px = u8 hp0 (data imgData);
          flt = float32Arrays px len (toneA params)
      in
       andThen (newUint8ClampedArray (len * 4)) (\<lambda>mask.
       andThen (forLoop 0 len (\<lambda>i. typedArraySet mask (maskPixel flt (glowThreshold params) i) (i * 4))) (\<lambda>_.
       andThen (blur P mask w h (glowBlur params)) (\<lambda>glow.
       andThen (newUint8ClampedArray (len * 4)) (\<lambda>out.
       andThen (forLoop 0 len (\<lambda>i hp.
                  typedArraySet out (combinePixel P params flt (u8 hp glow) i) (i * 4) hp)) (\<lambda>_.
       andThen (blurSeparate P out w h (softFocusRadius params)) (\<lambda>soft.
       andThen (newUint8ClampedArray (len * 4)) (\<lambda>final.
       andThen (forLoop 0 len (\<lambda>i hp.
                  typedArraySet final
                    (blendPixel (softFocusStrength params) (u8 hp out) (u8 hp soft) i) (i * 4) hp)) (\<lambda>_.
       newImageData final w h)))))))) hp0)"

section \<open>The arrays of a run\<close>

text \<open>
  The contents the five arrays of a run end with, in the order of their allocation:
  \<^verbatim>\<open>mask\<close>, \<^verbatim>\<open>glow\<close>, \<^verbatim>\<open>out\<close>, \<^verbatim>\<open>soft\<close> and \<^verbatim>\<open>final\<close>. The lemmas
  \<open>applyFilmLook_to_blur\<close> and \<open>applyFilmLook_run\<close> below show that the loops of
  \<open>applyFilmLook\<close> compute them.
\<close>

definition glowMask :: "byte list \<Rightarrow> nat \<Rightarrow> nat \<Rightarrow> FilmLookParams \<Rightarrow> byte list" where
  "glowMask px w h params =
     concat (map (maskPixel (float32Arrays px (w * h) (toneA params)) (glowThreshold params)) [0..<w * h])"

definition glowBlurred :: "platform \<Rightarrow> byte list \<Rightarrow> nat \<Rightarrow> nat \<Rightarrow> FilmLookParams \<Rightarrow> byte list" where
  "glowBlurred P px w h params =
     map (drawOntoSelf P (glowMask px w h params) w h (glowBlur params)) [0..<w * h * 4]"

definition combined :: "platform \<Rightarrow> byte list \<Rightarrow> nat \<Rightarrow> nat \<Rightarrow> FilmLookParams \<Rightarrow> byte list" where
  "combined P px w h params =
     concat (map (combinePixel P params (float32Arrays px (w * h) (toneA params))
                    (glowBlurred P px w h params)) [0..<w * h])"

definition softBlurred :: "platform \<Rightarrow> byte list \<Rightarrow> nat \<Rightarrow> nat \<Rightarrow> FilmLookParams \<Rightarrow> byte list" where
  "softBlurred P px w h params =
     map (drawOntoFresh P (combined P px w h params) w h (softFocusRadius params)) [0..<w * h * 4]"

definition blended :: "platform \<Rightarrow> byte list \<Rightarrow> nat \<Rightarrow> nat \<Rightarrow> FilmLookParams \<Rightarrow> byte list" where
  "blended P px w h params =
     concat (map (blendPixel (softFocusStrength params) (combined P px w h params)
                    (softBlurred P px w h params)) [0..<w * h])"

text \<open>
  The heap when the pipeline returns, and the heap when the glow blur is called (the mask
  is allocated and filled), which is the heap a throwing run ends with.
\<close>

definition heapAfter :: "platform \<Rightarrow> ImageData \<Rightarrow> nat \<Rightarrow> nat \<Rightarrow> FilmLookParams \<Rightarrow> heap \<Rightarrow> heap" where
  "heapAfter P imgData w h params hp0 =
     (let n = nextRef hp0; px = u8 hp0 (data imgData) in
      hp0\<lparr>nextRef := n + 5,
          u8 := (u8 hp0)(n := glowMask px w h params,
                         n + 1 := glowBlurred P px w h params,
                         n + 2 := combined P px w h params,
                         n + 3 := softBlurred P px w h params,
                         n + 4 := blended P px w h params)\<rparr>)"

definition heapAtBlur :: "ImageData \<Rightarrow> nat \<Rightarrow> nat \<Rightarrow> FilmLookParams \<Rightarrow> heap \<Rightarrow> heap" where
  "heapAtBlur imgData w h params hp0 =
     hp0\<lparr>nextRef := Suc (nextRef hp0),
         u8 := (u8 hp0)(nextRef hp0 := glowMask (u8 hp0 (data imgData)) w h params)\<rparr>"

section \<open>The vocabulary of the specification\<close>

text \<open>
  A valid input: positive dimensions that are the image's own, a pixel buffer of exactly
  \<open>w * h * 4\<close> bytes, held by the heap.
\<close>

definition validInput :: "heap \<Rightarrow> ImageData \<Rightarrow> nat \<Rightarrow> nat \<Rightarrow> bool" where
  "validInput hp imgData w h \<longleftrightarrow>
     0 < w \<and> 0 < h \<and> width imgData = w \<and> height imgData = h \<and>
     length (u8 hp (data imgData)) = w * h * 4 \<and> data imgData < nextRef hp"

text \<open>
  The graded image at the 8-bit boundary: the floats \<^verbatim>\<open>R[i]\<close>, \<^verbatim>\<open>G[i]\<close>, \<^verbatim>\<open>B[i]\<close> the
  tone stage stored, times 255, stored as bytes, with full alpha.
\<close>

definition toneOutput8 :: "byte list \<Rightarrow> nat \<Rightarrow> nat \<Rightarrow> real \<Rightarrow> byte list" where
  "toneOutput8 px w h a =
     concat (map (\<lambda>i. [storeU8 (map_option (\<lambda>t. R t * 255) (float32At px a i)),
                        storeU8 (map_option (\<lambda>t. G t * 255) (float32At px a i)),
                        storeU8 (map_option (\<lambda>t. B t * 255) (float32At px a i)),
                        255]) [0..<w * h])"


definition toneCurve :: "real \<Rightarrow> real \<Rightarrow> real" where
  "toneCurve a c = 1 / (1 + exp (- a * (c - 0.5)))"





section \<open>Concrete inputs\<close>

text \<open>
  A browser whose canvas has a 2D context and gives the pixels back as they are (what a
  blur of radius 0 does), with \<^verbatim>\<open>Math.random()\<close> always 1/2.
\<close>

definition identityCanvas :: platform where
  "identityCanvas =
     \<lparr>getContext2d = True,
      drawOntoSelf = (\<lambda>px w h r k. if k < length px then px ! k else 0),
      drawOntoFresh = (\<lambda>px w h r k. if k < length px then px ! k else 0),
      random = (\<lambda>i. 1 / 2)\<rparr>"

text \<open>A heap with one array, the pixels of a 1 by 1 gray image, and that image.\<close>

definition grayHeap :: heap where
  "grayHeap = \<lparr>nextRef = 1, u8 = (\<lambda>r. if r = 0 then [128, 128, 128, 255] else [])\<rparr>"

definition grayImage :: ImageData where
  "grayImage = \<lparr>data = 0, width = 1, height = 1\<rparr>"

text \<open>A heap with the pixels of a 2 by 1 image, and that image.\<close>

definition wideHeap :: heap where
  "wideHeap = \<lparr>nextRef = 1, u8 = (\<lambda>r. if r = 0 then [128, 128, 128, 255, 64, 64, 64, 255] else [])\<rparr>"

definition wideImage :: ImageData where
  "wideImage = \<lparr>data = 0, width = 2, height = 1\<rparr>"

text \<open>The default parameters with both blur radii 0, and with the three strengths 0.\<close>

definition sharpParams :: FilmLookParams where
  "sharpParams = defaultParams\<lparr>glowBlur := 0, softFocusRadius := 0\<rparr>"

definition plainParams :: FilmLookParams where
  "plainParams = defaultParams\<lparr>glowStrength := 0, grainStrength := 0, softFocusStrength := 0\<rparr>"


definition noGlowParams :: FilmLookParams where
  "noGlowParams = defaultParams\<lparr>glowThreshold := 1\<rparr>"

definition allGlowParams :: FilmLookParams where
  "allGlowParams = defaultParams\<lparr>glowThreshold := 0\<rparr>"


text \<open>
  A heap with the pixels of a 1 by 1 black image, that image, and the default parameters
  with \<open>toneA = 1000\<close> and the glow threshold 0.
\<close>

definition blackHeap :: heap where
  "blackHeap = \<lparr>nextRef = 1, u8 = (\<lambda>r. if r = 0 then [0, 0, 0, 255] else [])\<rparr>"

definition blackImage :: ImageData where
  "blackImage = \<lparr>data = 0, width = 1, height = 1\<rparr>"

definition steepParams :: FilmLookParams where
  "steepParams = defaultParams\<lparr>toneA := 1000, glowThreshold := 0\<rparr>"


section \<open>Rounding\<close>

lemma roundHalfEven_near:
  assumes "of_int k - 1 / 2 < y" and "y < of_int k + 1 / 2"
  shows "roundHalfEven y = k"
proof -
  have "\<lfloor>y\<rfloor> = k \<or> \<lfloor>y\<rfloor> = k - 1" using assms by linarith
  then show ?thesis
  proof
    assume f: "\<lfloor>y\<rfloor> = k"
    then show ?thesis using assms by (simp add: roundHalfEven_def Let_def)
  next
    assume f: "\<lfloor>y\<rfloor> = k - 1"
    then have "of_int (k - 1) + 1 / 2 < y" using assms by simp
    then show ?thesis using f assms by (simp add: roundHalfEven_def Let_def)
  qed
qed

lemma roundHalfEven_of_int: "roundHalfEven (of_int k) = k"
  by (rule roundHalfEven_near) simp_all

lemma roundHalfEven_ge:
  assumes "of_int k \<le> y"
  shows "k \<le> roundHalfEven y"
proof -
  have "k \<le> \<lfloor>y\<rfloor>" using assms by (simp add: le_floor_iff)
  moreover have "\<lfloor>y\<rfloor> \<le> roundHalfEven y"
    by (simp add: roundHalfEven_def Let_def)
  ultimately show ?thesis by simp
qed

lemma roundHalfEven_le:
  assumes "y \<le> of_int k"
  shows "roundHalfEven y \<le> k"
proof (cases "y = of_int k")
  case True
  then show ?thesis by (simp add: roundHalfEven_of_int)
next
  case False
  with assms have lt: "y < of_int k" by simp
  then have "\<lfloor>y\<rfloor> < k" by (simp add: floor_less_iff)
  then have "\<lfloor>y\<rfloor> + 1 \<le> k" by simp
  moreover have "roundHalfEven y \<le> \<lfloor>y\<rfloor> + 1"
    by (simp add: roundHalfEven_def Let_def)
  ultimately show ?thesis by simp
qed

lemma pow2_pos: "0 < pow2 k"
  by (simp add: pow2_def)

lemma pow2_neg: "k \<le> 0 \<Longrightarrow> pow2 k = 1 / 2 ^ nat (- k)"
  by (cases "k = 0") (simp_all add: pow2_def)

lemma fround32_exponent:
  assumes "0 < x" and "x \<le> 1"
  shows "max \<lfloor>log 2 \<bar>x\<bar>\<rfloor> (- 126) \<le> 0"
proof -
  have "log 2 x \<le> 0" using assms by simp
  then have "\<lfloor>log 2 x\<rfloor> \<le> 0" by (simp add: floor_le_iff)
  then show ?thesis using assms by simp
qed

lemma fround32_scaled:
  assumes "0 < x" and "x \<le> 1"
  obtains n where "23 \<le> n" and "fround32 x = of_int (roundHalfEven (x * 2 ^ n)) / 2 ^ n"
proof -
  define e where "e = max \<lfloor>log 2 \<bar>x\<bar>\<rfloor> (- 126)"
  have e: "e \<le> 0" unfolding e_def using assms by (rule fround32_exponent)
  define n where "n = nat (23 - e)"
  have n: "23 \<le> n" using e by (simp add: n_def)
  have q: "pow2 (e - 23) = 1 / 2 ^ n"
    using e by (simp add: pow2_neg n_def)
  have "fround32 x = of_int (roundHalfEven (x / pow2 (e - 23))) * pow2 (e - 23)"
    using assms(1) by (simp add: fround32_def Let_def e_def)
  then have "fround32 x = of_int (roundHalfEven (x * 2 ^ n)) / 2 ^ n"
    by (simp add: q)
  with n show ?thesis by (rule that)
qed

lemma fround32_ge:
  assumes "0 < x" and "x \<le> 1" and "j \<le> 23" and "of_int m / 2 ^ j \<le> x"
  shows "of_int m / 2 ^ j \<le> fround32 x"
proof -
  obtain n where n: "23 \<le> n" and f: "fround32 x = of_int (roundHalfEven (x * 2 ^ n)) / 2 ^ n"
    using assms(1,2) by (rule fround32_scaled)
  have jn: "j \<le> n" using n assms(3) by simp
  have p: "(2::real) ^ n = 2 ^ j * 2 ^ (n - j)"
    using jn by (simp add: power_add[symmetric])
  have "of_int m / 2 ^ j * 2 ^ n \<le> x * 2 ^ n"
    using assms(4) by (rule mult_right_mono) simp
  then have "of_int (m * 2 ^ (n - j)) \<le> x * 2 ^ n"
    by (simp add: p)
  then have "m * 2 ^ (n - j) \<le> roundHalfEven (x * 2 ^ n)"
    by (rule roundHalfEven_ge)
  then have "(of_int (m * 2 ^ (n - j)) :: real) \<le> of_int (roundHalfEven (x * 2 ^ n))"
    by (simp only: of_int_le_iff)
  then have "of_int (m * 2 ^ (n - j)) / 2 ^ n \<le> fround32 x"
    unfolding f by (simp add: divide_right_mono)
  then show ?thesis by (simp add: p)
qed

lemma fround32_le:
  assumes "0 < x" and "x \<le> 1" and "j \<le> 23" and "x \<le> of_int m / 2 ^ j"
  shows "fround32 x \<le> of_int m / 2 ^ j"
proof -
  obtain n where n: "23 \<le> n" and f: "fround32 x = of_int (roundHalfEven (x * 2 ^ n)) / 2 ^ n"
    using assms(1,2) by (rule fround32_scaled)
  have jn: "j \<le> n" using n assms(3) by simp
  have p: "(2::real) ^ n = 2 ^ j * 2 ^ (n - j)"
    using jn by (simp add: power_add[symmetric])
  have "x * 2 ^ n \<le> of_int m / 2 ^ j * 2 ^ n"
    using assms(4) by (rule mult_right_mono) simp
  then have "x * 2 ^ n \<le> of_int (m * 2 ^ (n - j))"
    by (simp add: p)
  then have "roundHalfEven (x * 2 ^ n) \<le> m * 2 ^ (n - j)"
    by (rule roundHalfEven_le)
  then have "(of_int (roundHalfEven (x * 2 ^ n)) :: real) \<le> of_int (m * 2 ^ (n - j))"
    by (simp only: of_int_le_iff)
  then have "fround32 x \<le> of_int (m * 2 ^ (n - j)) / 2 ^ n"
    unfolding f by (simp add: divide_right_mono)
  then show ?thesis by (simp add: p)
qed

lemma fround32_unit: "0 \<le> x \<Longrightarrow> x \<le> 1 \<Longrightarrow> 0 \<le> fround32 x \<and> fround32 x \<le> 1"
proof (cases "x = 0")
  case True
  then show ?thesis by (simp add: fround32_def)
next
  case False
  assume "0 \<le> x" "x \<le> 1"
  with False have x: "0 < x" "x \<le> 1" by simp_all
  have "of_int 0 / 2 ^ 0 \<le> fround32 x"
    using x by (intro fround32_ge) simp_all
  moreover have "fround32 x \<le> of_int 1 / 2 ^ 0"
    using x by (intro fround32_le) simp_all
  ultimately show ?thesis by simp
qed


lemma fround32_underflow:
  assumes "0 < x" and "x < 1 / 2 ^ 150"
  shows "fround32 x = 0"
proof -
  have "x < 2 powr (- 126)"
  proof -
    have "(1::real) / 2 ^ 150 \<le> 1 / 2 ^ 126" by simp
    also have "\<dots> = 2 powr (- 126)" by (simp add: powr_minus_divide)
    finally show ?thesis using assms(2) by simp
  qed
  then have "log 2 x < - 126" using assms(1) by (simp add: log_less_iff)
  then have "\<lfloor>log 2 x\<rfloor> \<le> - 126" by (simp add: floor_le_iff)
  then have e: "max \<lfloor>log 2 x\<rfloor> (- 126) = - 126" by simp
  have q: "pow2 (- 149) = 1 / 2 ^ 149" by (simp add: pow2_def)
  have "x * 2 ^ 149 < 1 / 2 ^ 150 * 2 ^ 149"
    using assms(2) by (rule mult_strict_right_mono) simp
  then have lt: "x * 2 ^ 149 < 1 / 2" by simp
  have "0 < x * 2 ^ 149" using assms(1) by simp
  with lt have "roundHalfEven (x * 2 ^ 149) = 0"
    by (intro roundHalfEven_near) simp_all
  then show ?thesis
    using assms(1) by (simp add: fround32_def Let_def e q)
qed


lemma exp_5_le: "exp 5 \<le> (255::real)"
proof -
  have "exp (of_nat 5 * 1) = (exp 1 :: real) ^ 5" by (rule exp_of_nat_mult)
  then have "exp 5 = (exp 1 :: real) ^ 5" by simp
  also have "\<dots> \<le> 3 ^ 5" by (rule power_mono) (simp_all add: exp_le)
  finally show ?thesis by simp
qed

lemma exp_500_ge: "(2::real) ^ 500 \<le> exp 500"
proof -
  have "(2::real) \<le> exp 1" using exp_ge_add_one_self[of "1::real"] by simp
  then have "(2::real) ^ 500 \<le> exp 1 ^ 500" by (rule power_mono) simp
  also have "\<dots> = exp (of_nat 500 * 1)" by (rule exp_of_nat_mult[symmetric])
  finally show ?thesis by simp
qed



section \<open>Loops and runs\<close>

lemma forLoop_fill:
  assumes "length (u8 hp a) = 4 * len" and "j \<le> len"
    and "\<And>i hp'. length (f i hp') = 4"
    and "\<And>i hp'. (\<forall>r. r \<noteq> a \<longrightarrow> u8 hp' r = u8 hp r) \<Longrightarrow> f i hp' = f i hp"
  shows "forLoop j len (\<lambda>i hp'. typedArraySet a (f i hp') (i * 4) hp') hp =
     (Inr (), hp\<lparr>u8 := (u8 hp)(a := take (4 * j) (u8 hp a) @ concat (map (\<lambda>i. f i hp) [j..<len]))\<rparr>)"
  using assms
proof (induction "len - j" arbitrary: j hp)
  case 0
  from "0.hyps" "0.prems"(2) have "j = len" by simp
  with "0.prems"(1) show ?case
    by (simp add: forLoop.simps[of len len])
next
  case (Suc n)
  from Suc.hyps(2) have jl: "j < len" by simp
  let ?q = "f j hp"
  let ?xs = "u8 hp a"
  let ?hp1 = "hp\<lparr>u8 := (u8 hp)(a := take (j * 4) ?xs @ ?q @ drop (j * 4 + 4) ?xs)\<rparr>"
  have fit: "j * 4 + length ?q \<le> length ?xs"
    using jl Suc.prems(1) Suc.prems(3)[of j hp] by simp
  have step: "typedArraySet a ?q (j * 4) hp = (Inr (), ?hp1)"
    using fit Suc.prems(3)[of j hp] by (simp add: typedArraySet_def)
  have len1: "length (u8 ?hp1 a) = 4 * len"
    using jl Suc.prems(1) Suc.prems(3)[of j hp] by simp
  have indep1: "\<And>i hp'. (\<forall>r. r \<noteq> a \<longrightarrow> u8 hp' r = u8 ?hp1 r) \<Longrightarrow> f i hp' = f i ?hp1"
  proof -
    fix i and hp' :: heap assume h: "\<forall>r. r \<noteq> a \<longrightarrow> u8 hp' r = u8 ?hp1 r"
    then have "f i hp' = f i hp" by (intro Suc.prems(4)) simp
    moreover have "f i ?hp1 = f i hp" by (intro Suc.prems(4)) simp
    ultimately show "f i hp' = f i ?hp1" by simp
  qed
  have same: "\<And>i. f i ?hp1 = f i hp" by (intro Suc.prems(4)) simp
  have IH: "forLoop (Suc j) len (\<lambda>i hp'. typedArraySet a (f i hp') (i * 4) hp') ?hp1 =
     (Inr (), ?hp1\<lparr>u8 := (u8 ?hp1)(a := take (4 * Suc j) (u8 ?hp1 a) @ concat (map (\<lambda>i. f i ?hp1) [Suc j..<len]))\<rparr>)"
  proof (rule Suc.hyps(1))
    show "n = len - Suc j" using Suc.hyps(2) by simp
    show "length (u8 ?hp1 a) = 4 * len" by (rule len1)
    show "Suc j \<le> len" using jl by simp
    show "\<And>i hp'. length (f i hp') = 4" by (rule Suc.prems(3))
    show "\<And>i hp'. (\<forall>r. r \<noteq> a \<longrightarrow> u8 hp' r = u8 ?hp1 r) \<Longrightarrow> f i hp' = f i ?hp1"
      by (rule indep1)
  qed
  have tk: "take (4 * Suc j) (u8 ?hp1 a) = take (4 * j) ?xs @ ?q"
    using jl Suc.prems(1) Suc.prems(3)[of j hp] by (simp add: mult.commute)
  show ?case
    apply (subst forLoop.simps)
    apply (simp only: step jl if_True prod.case sum.case IH tk same)
    apply (simp add: upt_conv_Cons[OF jl])
    done
qed

lemma length_concat4:
  "(\<And>i. length (f i) = 4) \<Longrightarrow> length (concat (map f [0..<n])) = 4 * n"
  by (induction n) simp_all

lemma length_maskPixel [simp]: "length (maskPixel flt thr i) = 4"
  by (simp add: maskPixel_def Let_def)

lemma length_combinePixel [simp]: "length (combinePixel P params flt glow i) = 4"
  by (simp add: combinePixel_def split: option.split prod.split)

lemma length_blendPixel [simp]: "length (blendPixel s out soft i) = 4"
  by (simp add: blendPixel_def Let_def)

lemma length_glowMask [simp]: "length (glowMask px w h params) = 4 * (w * h)"
  unfolding glowMask_def by (rule length_concat4) simp

lemma length_combined [simp]: "length (combined P px w h params) = 4 * (w * h)"
  unfolding combined_def by (rule length_concat4) simp

lemma length_blended [simp]: "length (blended P px w h params) = 4 * (w * h)"
  unfolding blended_def by (rule length_concat4) simp

lemma newImageData_ok:
  assumes "length (u8 hp d) = 4 * (w * h)" and "0 < w" and "0 < h"
  shows "newImageData d w h hp = (Inr \<lparr>data = d, width = w, height = h\<rparr>, hp)"
proof -
  have "4 * (w * h) div 4 = w * h" by simp
  with assms show ?thesis
    by (simp add: newImageData_def Let_def)
qed

lemma newImageData_empty:
  "length (u8 hp d) = 0 \<Longrightarrow> newImageData d w h hp = (Inl DOMException, hp)"
  by (simp add: newImageData_def)

lemma mask_loop:
  assumes "length (u8 hp a) = 4 * len"
  shows "forLoop 0 len (\<lambda>i. typedArraySet a (maskPixel flt thr i) (i * 4)) hp =
     (Inr (), hp\<lparr>u8 := (u8 hp)(a := concat (map (maskPixel flt thr) [0..<len]))\<rparr>)"
  using forLoop_fill[where f = "\<lambda>i hp'. maskPixel flt thr i" and j = 0 and hp = hp and a = a and len = len]
    assms by simp

lemma combine_loop:
  assumes "length (u8 hp a) = 4 * len" and "g \<noteq> a"
  shows "forLoop 0 len (\<lambda>i hp'. typedArraySet a (combinePixel P params flt (u8 hp' g) i) (i * 4) hp') hp =
     (Inr (), hp\<lparr>u8 := (u8 hp)(a := concat (map (combinePixel P params flt (u8 hp g)) [0..<len]))\<rparr>)"
  using forLoop_fill[where f = "\<lambda>i hp'. combinePixel P params flt (u8 hp' g) i" and j = 0 and hp = hp and a = a and len = len]
    assms by simp

lemma blend_loop:
  assumes "length (u8 hp a) = 4 * len" and "out \<noteq> a" and "soft \<noteq> a"
  shows "forLoop 0 len (\<lambda>i hp'. typedArraySet a (blendPixel s (u8 hp' out) (u8 hp' soft) i) (i * 4) hp') hp =
     (Inr (), hp\<lparr>u8 := (u8 hp)(a := concat (map (blendPixel s (u8 hp out) (u8 hp soft)) [0..<len]))\<rparr>)"
  using forLoop_fill[where f = "\<lambda>i hp'. blendPixel s (u8 hp' out) (u8 hp' soft) i" and j = 0 and hp = hp and a = a and len = len]
    assms by simp

lemma applyFilmLook_run:
  assumes ctx: "getContext2d P" and w: "0 < w" and h: "0 < h"
  shows "applyFilmLook P imgData w h params hp0 =
     (Inr \<lparr>data = nextRef hp0 + 4, width = w, height = h\<rparr>, heapAfter P imgData w h params hp0)"
proof -
  define n where "n = nextRef hp0"
  define px where "px = u8 hp0 (data imgData)"
  define len where "len = w * h"
  define flt where "flt = float32Arrays px len (toneA params)"
  define M where "M = glowMask px w h params"
  define Gl where "Gl = glowBlurred P px w h params"
  define Ou where "Ou = combined P px w h params"
  define So where "So = softBlurred P px w h params"
  define Fi where "Fi = blended P px w h params"
  define hp1 where "hp1 = hp0\<lparr>nextRef := Suc n, u8 := (u8 hp0)(n := replicate (len * 4) 0)\<rparr>"
  define hp2 where "hp2 = hp1\<lparr>u8 := (u8 hp1)(n := M)\<rparr>"
  define hp3 where "hp3 = hp2\<lparr>nextRef := Suc (Suc n), u8 := (u8 hp2)(Suc n := Gl)\<rparr>"
  define hp4 where "hp4 = hp3\<lparr>nextRef := Suc (Suc (Suc n)), u8 := (u8 hp3)(Suc (Suc n) := replicate (len * 4) 0)\<rparr>"
  define hp5 where "hp5 = hp4\<lparr>u8 := (u8 hp4)(Suc (Suc n) := Ou)\<rparr>"
  define hp6 where "hp6 = hp5\<lparr>nextRef := Suc (Suc (Suc (Suc n))), u8 := (u8 hp5)(Suc (Suc (Suc n)) := So)\<rparr>"
  define hp7 where "hp7 = hp6\<lparr>nextRef := Suc (Suc (Suc (Suc (Suc n)))),
      u8 := (u8 hp6)(Suc (Suc (Suc (Suc n))) := replicate (len * 4) 0)\<rparr>"
  define hp8 where "hp8 = hp7\<lparr>u8 := (u8 hp7)(Suc (Suc (Suc (Suc n))) := Fi)\<rparr>"
  have s1: "newUint8ClampedArray (len * 4) hp0 = (Inr n, hp1)"
    by (simp add: newUint8ClampedArray_def hp1_def n_def)
  have s2: "forLoop 0 len (\<lambda>i. typedArraySet n (maskPixel flt (glowThreshold params) i) (i * 4)) hp1
      = (Inr (), hp2)"
    unfolding hp2_def M_def glowMask_def flt_def len_def
    by (rule mask_loop) (simp add: hp1_def len_def)
  have s3: "blur P n w h (glowBlur params) hp2 = (Inr (Suc n), hp3)"
  proof -
    have "newImageData n w h hp2 = (Inr \<lparr>data = n, width = w, height = h\<rparr>, hp2)"
      by (rule newImageData_ok) (simp_all add: hp2_def M_def w h)
    moreover have "nextRef hp2 = Suc n" by (simp add: hp2_def hp1_def)
    moreover have "u8 hp2 n = M" by (simp add: hp2_def)
    ultimately show ?thesis
      using ctx w h by (simp add: blur_def andThen_def getImageData_def hp3_def Gl_def glowBlurred_def M_def)
  qed
  have s4: "newUint8ClampedArray (len * 4) hp3 = (Inr (Suc (Suc n)), hp4)"
    by (simp add: newUint8ClampedArray_def hp4_def hp3_def)
  have s5: "forLoop 0 len (\<lambda>i hp'. typedArraySet (Suc (Suc n))
        (combinePixel P params flt (u8 hp' (Suc n)) i) (i * 4) hp') hp4 = (Inr (), hp5)"
  proof -
    have "u8 hp4 (Suc n) = Gl" by (simp add: hp4_def hp3_def)
    moreover have "length (u8 hp4 (Suc (Suc n))) = 4 * len" by (simp add: hp4_def)
    ultimately show ?thesis
      using combine_loop[of hp4 "Suc (Suc n)" len "Suc n" P params flt]
      by (simp add: hp5_def Ou_def combined_def flt_def len_def Gl_def)
  qed
  have s6: "blurSeparate P (Suc (Suc n)) w h (softFocusRadius params) hp5 = (Inr (Suc (Suc (Suc n))), hp6)"
  proof -
    have "newImageData (Suc (Suc n)) w h hp5 = (Inr \<lparr>data = Suc (Suc n), width = w, height = h\<rparr>, hp5)"
      by (rule newImageData_ok) (simp_all add: hp5_def Ou_def w h)
    moreover have "nextRef hp5 = Suc (Suc (Suc n))" by (simp add: hp5_def hp4_def)
    moreover have "u8 hp5 (Suc (Suc n)) = Ou" by (simp add: hp5_def)
    ultimately show ?thesis
      using ctx w h by (simp add: blurSeparate_def andThen_def getImageData_def hp6_def So_def softBlurred_def Ou_def)
  qed
  have s7: "newUint8ClampedArray (len * 4) hp6 = (Inr (Suc (Suc (Suc (Suc n)))), hp7)"
    by (simp add: newUint8ClampedArray_def hp7_def hp6_def)
  have s8: "forLoop 0 len (\<lambda>i hp'. typedArraySet (Suc (Suc (Suc (Suc n))))
        (blendPixel (softFocusStrength params) (u8 hp' (Suc (Suc n))) (u8 hp' (Suc (Suc (Suc n)))) i) (i * 4) hp') hp7
      = (Inr (), hp8)"
  proof -
    have "u8 hp7 (Suc (Suc n)) = Ou" by (simp add: hp7_def hp6_def hp5_def)
    moreover have "u8 hp7 (Suc (Suc (Suc n))) = So" by (simp add: hp7_def hp6_def)
    moreover have "length (u8 hp7 (Suc (Suc (Suc (Suc n))))) = 4 * len" by (simp add: hp7_def)
    ultimately show ?thesis
      using blend_loop[of hp7 "Suc (Suc (Suc (Suc n)))" len "Suc (Suc n)" "Suc (Suc (Suc n))" "softFocusStrength params"]
      by (simp add: hp8_def Fi_def blended_def len_def Ou_def So_def)
  qed
  have s9: "newImageData (Suc (Suc (Suc (Suc n)))) w h hp8
      = (Inr \<lparr>data = Suc (Suc (Suc (Suc n))), width = w, height = h\<rparr>, hp8)"
    by (rule newImageData_ok) (simp_all add: hp8_def Fi_def w h)
  have run: "applyFilmLook P imgData w h params hp0
      = (Inr \<lparr>data = Suc (Suc (Suc (Suc n))), width = w, height = h\<rparr>, hp8)"
    unfolding applyFilmLook_def Let_def andThen_def
    unfolding px_def[symmetric] len_def[symmetric] flt_def[symmetric]
    by (simp only: s1 s2 s3 s4 s5 s6 s7 s8 s9 prod.case sum.case)
  have heap: "hp8 = heapAfter P imgData w h params hp0"
    unfolding heapAfter_def Let_def hp8_def hp7_def hp6_def hp5_def hp4_def hp3_def hp2_def hp1_def
      n_def[symmetric] px_def[symmetric] M_def[symmetric] Gl_def[symmetric] Ou_def[symmetric]
      So_def[symmetric] Fi_def[symmetric]
    by (simp add: eval_nat_numeral)
  show ?thesis
    using run heap by (simp add: n_def eval_nat_numeral)
qed

lemma applyFilmLook_to_blur:
  "applyFilmLook P imgData w h params hp0 =
     andThen (blur P (nextRef hp0) w h (glowBlur params)) (\<lambda>glow.
       andThen (newUint8ClampedArray (w * h * 4)) (\<lambda>out.
       andThen (forLoop 0 (w * h) (\<lambda>i hp.
                  typedArraySet out (combinePixel P params (float32Arrays (u8 hp0 (data imgData)) (w * h) (toneA params)) (u8 hp glow) i) (i * 4) hp)) (\<lambda>_.
       andThen (blurSeparate P out w h (softFocusRadius params)) (\<lambda>soft.
       andThen (newUint8ClampedArray (w * h * 4)) (\<lambda>final.
       andThen (forLoop 0 (w * h) (\<lambda>i hp.
                  typedArraySet final
                    (blendPixel (softFocusStrength params) (u8 hp out) (u8 hp soft) i) (i * 4) hp)) (\<lambda>_.
       newImageData final w h))))))
     (heapAtBlur imgData w h params hp0)"
proof -
  define hp1 where "hp1 = hp0\<lparr>nextRef := Suc (nextRef hp0), u8 := (u8 hp0)(nextRef hp0 := replicate (w * h * 4) 0)\<rparr>"
  have s1: "newUint8ClampedArray (w * h * 4) hp0 = (Inr (nextRef hp0), hp1)"
    by (simp add: newUint8ClampedArray_def hp1_def)
  have s2: "forLoop 0 (w * h) (\<lambda>i. typedArraySet (nextRef hp0)
       (maskPixel (float32Arrays (u8 hp0 (data imgData)) (w * h) (toneA params)) (glowThreshold params) i) (i * 4)) hp1
      = (Inr (), heapAtBlur imgData w h params hp0)"
    using mask_loop[of hp1 "nextRef hp0" "w * h"]
    by (simp add: hp1_def heapAtBlur_def glowMask_def)
  show ?thesis
    unfolding applyFilmLook_def Let_def
    apply (subst andThen_def)
    apply (simp only: s1 prod.case sum.case)
    apply (subst andThen_def)
    apply (simp only: s2 prod.case sum.case)
    done
qed

lemma applyFilmLook_no_context:
  "\<not> getContext2d P \<Longrightarrow>
   applyFilmLook P imgData w h params hp0 = (Inl ContextUnavailable, heapAtBlur imgData w h params hp0)"
  by (simp add: applyFilmLook_to_blur andThen_def blur_def)

lemma applyFilmLook_empty:
  assumes "getContext2d P" and "w = 0 \<or> h = 0"
  shows "applyFilmLook P imgData w h params hp0 = (Inl DOMException, heapAtBlur imgData w h params hp0)"
proof -
  have "length (u8 (heapAtBlur imgData w h params hp0) (nextRef hp0)) = 0"
    using assms(2) by (auto simp: heapAtBlur_def)
  then have "newImageData (nextRef hp0) w h (heapAtBlur imgData w h params hp0)
     = (Inl DOMException, heapAtBlur imgData w h params hp0)"
    by (rule newImageData_empty)
  then show ?thesis
    using assms(1) by (simp add: applyFilmLook_to_blur andThen_def blur_def)
qed

lemma nth_concat4:
  assumes "\<And>i. length (f i) = 4" and "i < n" and "k < 4"
  shows "concat (map f [0..<n]) ! (i * 4 + k) = f i ! k"
  using assms(2)
proof (induction n)
  case 0
  then show ?case by simp
next
  case (Suc n)
  have len: "length (concat (map f [0..<n])) = 4 * n"
    by (rule length_concat4) (rule assms(1))
  show ?case
  proof (cases "i < n")
    case True
    then have "i * 4 + k < 4 * n" using assms(3) by simp
    with Suc.IH[OF True] len show ?thesis by (simp add: nth_append)
  next
    case False
    with Suc.prems have "i = n" by simp
    with len show ?thesis by (simp add: nth_append mult.commute)
  qed
qed

lemma toUint8Clamp_nat:
  assumes "n < 256"
  shows "toUint8Clamp (real n) = word_of_nat n"
proof -
  consider "n = 0" | "n = 255" | "0 < n" "n < 255"
    using assms by linarith
  then show ?thesis
  proof cases
    case 1
    then show ?thesis by (simp add: toUint8Clamp_def)
  next
    case 2
    then show ?thesis by (simp add: toUint8Clamp_def)
  next
    case 3
    have fl: "\<lfloor>real n\<rfloor> = int n" by simp
    have "\<not> real n \<le> 0" "\<not> 255 \<le> real n" using 3 by simp_all
    then show ?thesis
      unfolding toUint8Clamp_def Let_def fl by simp
  qed
qed

lemma toUint8Clamp_unat: "toUint8Clamp (real (unat (b :: byte))) = b"
proof -
  have "unat b < 2 ^ LENGTH(8)" by (rule unsigned_less)
  then have "unat b < 256" by simp
  then have "toUint8Clamp (real (unat b)) = word_of_nat (unat b)"
    by (rule toUint8Clamp_nat)
  then show ?thesis by simp
qed

lemma clamp_range: "0 \<le> clamp v \<and> clamp v \<le> 1"
  by (simp add: clamp_def)

lemma clamp_idem: "clamp (clamp v) = clamp v"
  by (simp add: clamp_def)

lemma clamp_id: "0 \<le> v \<Longrightarrow> v \<le> 1 \<Longrightarrow> clamp v = v"
  by (simp add: clamp_def)

lemma applyFilmLook_heap_old:
  assumes "r < nextRef hp0"
  shows "u8 (snd (applyFilmLook P imgData w h params hp0)) r = u8 hp0 r"
proof (cases "getContext2d P")
  case False
  then show ?thesis
    using assms by (simp add: applyFilmLook_no_context heapAtBlur_def)
next
  case True
  show ?thesis
  proof (cases "0 < w \<and> 0 < h")
    case True
    with \<open>getContext2d P\<close> show ?thesis
      using assms by (simp add: applyFilmLook_run heapAfter_def Let_def)
  next
    case False
    then have "w = 0 \<or> h = 0" by simp
    with \<open>getContext2d P\<close> show ?thesis
      using assms by (simp add: applyFilmLook_empty heapAtBlur_def)
  qed
qed


lemma float32Arrays_nth: "i < len \<Longrightarrow> float32Arrays px len a ! i = float32At px a i"
  by (simp add: float32Arrays_def)

lemma toUint8Clamp_clamp: "toUint8Clamp (clamp y * 255) = toUint8Clamp (y * 255)"
proof -
  consider "y < 0" | "0 \<le> y" "y \<le> 1" | "1 < y" by linarith
  then show ?thesis
  proof cases
    case 1
    then have "y * 255 \<le> 0" by simp
    with 1 show ?thesis by (simp add: clamp_def toUint8Clamp_def)
  next
    case 2
    then show ?thesis by (simp add: clamp_def)
  next
    case 3
    then have "255 \<le> y * 255" by simp
    with 3 show ?thesis by (simp add: clamp_def toUint8Clamp_def)
  qed
qed

lemma readU8_Some: "k < length xs \<Longrightarrow> readU8 xs k = Some (real (unat (xs ! k)))"
  by (simp add: readU8_def)

lemma toUint8Clamp_unsigned: "toUint8Clamp (unsigned (b :: byte)) = b"
  using toUint8Clamp_unat[of b] by simp

lemma preClamp_plain:
  assumes "glowStrength params = 0" and "grainStrength params = 0" and "i * 4 + 3 < length glow"
  shows "preClamp P params t glow i = (Some (R t), Some (G t), Some (B t))"
  using assms by (simp add: preClamp_def Let_def readU8_Some)

lemma combinePixel_plain:
  assumes gl: "glowStrength params = 0" and gr: "grainStrength params = 0"
    and len: "i * 4 + 3 < length glow" and i: "i < len"
  shows "combinePixel P params (float32Arrays px len a) glow i =
     [storeU8 (map_option (\<lambda>t. R t * 255) (float32At px a i)),
      storeU8 (map_option (\<lambda>t. G t * 255) (float32At px a i)),
      storeU8 (map_option (\<lambda>t. B t * 255) (float32At px a i)),
      255]"
proof (cases "float32At px a i")
  case None
  then show ?thesis
    using i by (simp add: combinePixel_def float32Arrays_nth storeU8_def)
next
  case (Some t)
  show ?thesis
    using i Some
    by (simp add: combinePixel_def float32Arrays_nth preClamp_plain[OF gl gr len] storeU8_def
        toUint8Clamp_clamp)
qed

lemma blendPixel_sharp:
  assumes "i * 4 + 3 < length out" and "i * 4 + 3 < length soft"
  shows "blendPixel 0 out soft i = [out ! (i * 4), out ! (i * 4 + 1), out ! (i * 4 + 2), 255]"
proof -
  show ?thesis
    using assms
    by (simp add: blendPixel_def Let_def readU8_Some nan2_def storeU8_def toUint8Clamp_unsigned)
qed

lemma combinePixel_shape:
  "combinePixel P params flt glow i =
     [combinePixel P params flt glow i ! 0, combinePixel P params flt glow i ! 1,
      combinePixel P params flt glow i ! 2, 255]"
  by (simp add: combinePixel_def split: option.split prod.split)

lemma length_glowBlurred [simp]: "length (glowBlurred P px w h params) = w * h * 4"
  by (simp add: glowBlurred_def)

lemma length_softBlurred [simp]: "length (softBlurred P px w h params) = w * h * 4"
  by (simp add: softBlurred_def)

lemma combined_nth:
  assumes "i < w * h" and "k < 4"
  shows "combined P px w h params ! (i * 4 + k) =
     combinePixel P params (float32Arrays px (w * h) (toneA params)) (glowBlurred P px w h params) i ! k"
  unfolding combined_def using assms by (intro nth_concat4) simp_all

lemma blended_sharp:
  assumes "softFocusStrength params = 0"
  shows "blended P px w h params = combined P px w h params"
proof -
  have "blendPixel 0 (combined P px w h params) (softBlurred P px w h params) i =
      combinePixel P params (float32Arrays px (w * h) (toneA params)) (glowBlurred P px w h params) i"
    if "i < w * h" for i
  proof -
    have "i * 4 + 3 < w * h * 4" using that by simp
    then have "blendPixel 0 (combined P px w h params) (softBlurred P px w h params) i =
       [combined P px w h params ! (i * 4), combined P px w h params ! (i * 4 + 1),
        combined P px w h params ! (i * 4 + 2), 255]"
      by (intro blendPixel_sharp) (simp_all add: mult.commute)
    also have "\<dots> = combinePixel P params (float32Arrays px (w * h) (toneA params)) (glowBlurred P px w h params) i"
      using combined_nth[OF that, of 0 P px params] combined_nth[OF that, of 1 P px params]
        combined_nth[OF that, of 2 P px params]
        combinePixel_shape[of P params "float32Arrays px (w * h) (toneA params)" "glowBlurred P px w h params" i]
      by simp
    finally show ?thesis .
  qed
  then have "map (blendPixel 0 (combined P px w h params) (softBlurred P px w h params)) [0..<w * h] =
      map (combinePixel P params (float32Arrays px (w * h) (toneA params)) (glowBlurred P px w h params)) [0..<w * h]"
    by (intro map_cong refl) simp
  then have "concat (map (blendPixel 0 (combined P px w h params) (softBlurred P px w h params)) [0..<w * h]) =
      concat (map (combinePixel P params (float32Arrays px (w * h) (toneA params)) (glowBlurred P px w h params)) [0..<w * h])"
    by (rule arg_cong[where f = concat])
  then have "blended P px w h params =
      concat (map (combinePixel P params (float32Arrays px (w * h) (toneA params)) (glowBlurred P px w h params)) [0..<w * h])"
    unfolding blended_def assms .
  then show ?thesis
    unfolding combined_def[symmetric] .
qed

lemma combined_plain:
  assumes "glowStrength params = 0" and "grainStrength params = 0"
  shows "combined P px w h params = toneOutput8 px w h (toneA params)"
proof -
  have "combinePixel P params (float32Arrays px (w * h) (toneA params)) (glowBlurred P px w h params) i =
     [storeU8 (map_option (\<lambda>t. R t * 255) (float32At px (toneA params) i)),
      storeU8 (map_option (\<lambda>t. G t * 255) (float32At px (toneA params) i)),
      storeU8 (map_option (\<lambda>t. B t * 255) (float32At px (toneA params) i)),
      255]" if "i < w * h" for i
    using assms that by (intro combinePixel_plain) simp_all
  then have "map (combinePixel P params (float32Arrays px (w * h) (toneA params)) (glowBlurred P px w h params)) [0..<w * h] =
     map (\<lambda>i. [storeU8 (map_option (\<lambda>t. R t * 255) (float32At px (toneA params) i)),
      storeU8 (map_option (\<lambda>t. G t * 255) (float32At px (toneA params) i)),
      storeU8 (map_option (\<lambda>t. B t * 255) (float32At px (toneA params) i)),
      255]) [0..<w * h]"
    by (intro map_cong refl) simp
  then show ?thesis
    unfolding combined_def toneOutput8_def by (rule arg_cong[where f = concat])
qed

lemma heapAfter_final [simp]:
  "u8 (heapAfter P imgData w h params hp0) (nextRef hp0 + 4) = blended P (u8 hp0 (data imgData)) w h params"
  by (simp add: heapAfter_def Let_def)

lemma validInput_gray: "validInput grayHeap grayImage 1 1"
  by (simp add: validInput_def grayHeap_def grayImage_def)



lemma toneAt_in_range:
  assumes "i * 4 + 2 < length px"
  shows "toneAt px a i = Some (tonePixel a (real (unat (px ! (i * 4))) / 255)
     (real (unat (px ! (i * 4 + 1))) / 255) (real (unat (px ! (i * 4 + 2))) / 255))"
  using assms by (simp add: toneAt_def readU8_def)

lemma toneCurve_bounds: "0 < 1 / (1 + exp x) \<and> 1 / (1 + exp x) < (1::real)"
proof -
  have e: "0 < exp x" by simp
  have p: "0 < 1 + exp x" using e by linarith
  have q: "1 < 1 + exp x" using e by linarith
  have "1 / (1 + exp x) < 1"
    using p q by (subst divide_less_eq_1_pos) assumption+
  moreover from p have "0 < 1 / (1 + exp x)" by (rule divide_pos_pos[OF zero_less_one])
  ultimately show ?thesis by simp
qed

lemma lum_tonePixel_bounds: "0 < lum (tonePixel a r0 g0 b0) \<and> lum (tonePixel a r0 g0 b0) < 1"
proof -
  define x where "x = 1 / (1 + exp (- a * (r0 - 0.5)))"
  define y where "y = 1 / (1 + exp (- a * (g0 - 0.5)))"
  define z where "z = 1 / (1 + exp (- a * (b0 - 0.5)))"
  have b: "0 < x" "x < 1" "0 < y" "y < 1" "0 < z" "z < 1"
    using toneCurve_bounds by (simp_all add: x_def y_def z_def)
  have "lum (tonePixel a r0 g0 b0) = 0.2126 * x + 0.7152 * y + 0.0722 * z"
    by (simp only: tonePixel_def Let_def x_def y_def z_def graded.select_convs)
  with b show ?thesis by simp
qed

lemma toneAt_Some_lum:
  assumes "toneAt px a i = Some t"
  shows "0 < lum t \<and> lum t < 1"
  using assms lum_tonePixel_bounds
  by (auto simp: toneAt_def split: option.splits)

lemma float32At_Some:
  assumes "float32At px a i = Some t"
  obtains t0 where "toneAt px a i = Some t0" and "t = storeFloat32 t0"
  using assms by (auto simp: float32At_def)

lemma float32At_lum_unit:
  assumes "float32At px a i = Some t"
  shows "0 \<le> lum t \<and> lum t \<le> 1"
proof -
  obtain t0 where t0: "toneAt px a i = Some t0" and t: "t = storeFloat32 t0"
    using assms by (rule float32At_Some)
  from toneAt_Some_lum[OF t0] have "0 \<le> lum t0" "lum t0 \<le> 1" by simp_all
  then have "0 \<le> fround32 (lum t0) \<and> fround32 (lum t0) \<le> 1" by (rule fround32_unit)
  then show ?thesis by (simp add: t storeFloat32_def)
qed

lemma toneCurve_moderate:
  assumes "\<bar>x\<bar> \<le> 5"
  shows "1 / 256 \<le> 1 / (1 + exp x) \<and> 1 / (1 + exp x) \<le> (255 / 256 :: real)"
proof -
  have e: "0 < exp x" by simp
  have "exp x \<le> exp 5" using assms by simp
  then have up: "exp x \<le> 255" using exp_5_le by linarith
  have "exp (- x) \<le> exp 5" using assms by simp
  then have "exp (- x) \<le> 255" using exp_5_le by linarith
  then have "1 / exp x \<le> 255" by (simp add: exp_minus inverse_eq_divide)
  then have lo: "1 \<le> 255 * exp x" using e by (simp add: field_simps)
  have p: "0 < 1 + exp x" using e by linarith
  have "1 / 256 \<le> 1 / (1 + exp x)"
    using up p by (simp add: field_simps)
  moreover have "1 / (1 + exp x) \<le> 255 / 256"
    using lo p by (simp add: field_simps)
  ultimately show ?thesis by simp
qed

lemma lum_tonePixel_moderate:
  assumes "\<bar>a\<bar> \<le> 10" and "0 \<le> r0" "r0 \<le> 1" and "0 \<le> g0" "g0 \<le> 1" and "0 \<le> b0" "b0 \<le> 1"
  shows "1 / 256 \<le> lum (tonePixel a r0 g0 b0) \<and> lum (tonePixel a r0 g0 b0) \<le> 255 / 256"
proof -
  have arg: "\<bar>- a * (c - 0.5)\<bar> \<le> 5" if "0 \<le> c" "c \<le> 1" for c :: real
  proof -
    have "\<bar>c - 0.5\<bar> \<le> 1 / 2" using that by (intro abs_leI) simp_all
    then have "\<bar>a\<bar> * \<bar>c - 0.5\<bar> \<le> 10 * (1 / 2)"
      using assms(1) by (intro mult_mono) simp_all
    then show ?thesis by (simp add: abs_mult)
  qed
  define x where "x = 1 / (1 + exp (- a * (r0 - 0.5)))"
  define y where "y = 1 / (1 + exp (- a * (g0 - 0.5)))"
  define z where "z = 1 / (1 + exp (- a * (b0 - 0.5)))"
  have b: "1 / 256 \<le> x" "x \<le> 255 / 256" "1 / 256 \<le> y" "y \<le> 255 / 256"
    "1 / 256 \<le> z" "z \<le> 255 / 256"
    using toneCurve_moderate[OF arg[OF assms(2,3)]] toneCurve_moderate[OF arg[OF assms(4,5)]]
      toneCurve_moderate[OF arg[OF assms(6,7)]]
    by (simp_all add: x_def y_def z_def)
  have "lum (tonePixel a r0 g0 b0) = 0.2126 * x + 0.7152 * y + 0.0722 * z"
    by (simp only: tonePixel_def Let_def x_def y_def z_def graded.select_convs)
  with b show ?thesis by simp
qed

lemma unat_byte_unit: "0 \<le> real (unat (b :: byte)) / 255 \<and> real (unat b) / 255 \<le> 1"
proof -
  have "unat b < 2 ^ LENGTH(8)" by (rule unsigned_less)
  then have "unat b \<le> 255" by simp
  then have "real (unat b) \<le> real 255" by (rule of_nat_mono)
  moreover have "0 \<le> real (unat b)" by (rule of_nat_0_le_iff)
  ultimately show ?thesis by simp
qed

lemma float32At_lum_moderate:
  assumes "float32At px a i = Some t" and "\<bar>a\<bar> \<le> 10"
  shows "0 < lum t \<and> lum t < 1"
proof -
  obtain t0 where t0: "toneAt px a i = Some t0" and t: "t = storeFloat32 t0"
    using assms(1) by (rule float32At_Some)
  from t0 obtain r g b :: byte where
    "t0 = tonePixel a (real (unat r) / 255) (real (unat g) / 255) (real (unat b) / 255)"
    by (auto simp: toneAt_def readU8_def split: option.splits if_splits)
  then have m: "1 / 256 \<le> lum t0" "lum t0 \<le> 255 / 256"
    using lum_tonePixel_moderate[OF assms(2), of "real (unat r) / 255" "real (unat g) / 255"
        "real (unat b) / 255"] unat_byte_unit[of r] unat_byte_unit[of g] unat_byte_unit[of b]
    by simp_all
  then have x: "0 < lum t0" "lum t0 \<le> 1" by simp_all
  have "of_int 1 / 2 ^ 8 \<le> fround32 (lum t0)"
    using x m by (intro fround32_ge) simp_all
  moreover have "fround32 (lum t0) \<le> of_int 255 / 2 ^ 8"
    using x m by (intro fround32_le) simp_all
  ultimately show ?thesis by (simp add: t storeFloat32_def)
qed

lemma mask_of_run:
  "u8 (snd (applyFilmLook P imgData w h params hp0)) (nextRef hp0) =
     glowMask (u8 hp0 (data imgData)) w h params"
proof (cases "getContext2d P")
  case False
  then show ?thesis
    by (simp add: applyFilmLook_no_context heapAtBlur_def)
next
  case True
  show ?thesis
  proof (cases "0 < w \<and> 0 < h")
    case True
    with \<open>getContext2d P\<close> show ?thesis
      by (simp add: applyFilmLook_run heapAfter_def Let_def)
  next
    case False
    then have "w = 0 \<or> h = 0" by simp
    with \<open>getContext2d P\<close> show ?thesis
      by (simp add: applyFilmLook_empty heapAtBlur_def)
  qed
qed

lemma glowMask_nth:
  assumes "i < w * h" and "k < 3"
  shows "glowMask px w h params ! (i * 4 + k) =
     (case float32At px (toneA params) i of None \<Rightarrow> 0
      | Some t \<Rightarrow> if lum t > glowThreshold params then 255 else 0)"
proof -
  have "glowMask px w h params ! (i * 4 + k) =
      maskPixel (float32Arrays px (w * h) (toneA params)) (glowThreshold params) i ! k"
    unfolding glowMask_def using assms by (intro nth_concat4) simp_all
  also have "\<dots> = (case float32At px (toneA params) i of None \<Rightarrow> 0
      | Some t \<Rightarrow> if lum t > glowThreshold params then 255 else 0)"
  proof -
    consider "k = 0" | "k = 1" | "k = 2" using assms(2) by linarith
    then show ?thesis
      using assms(1) by cases (simp_all add: maskPixel_def Let_def float32Arrays_nth)
  qed
  finally show ?thesis .
qed

lemma lum_gray: "lum (tonePixel a c c c) = toneCurve a c"
proof -
  define x where "x = 1 / (1 + exp (- a * (c - 0.5)))"
  have "lum (tonePixel a c c c) = 0.2126 * x + 0.7152 * x + 0.0722 * x"
    by (simp only: tonePixel_def Let_def x_def graded.select_convs)
  also have "\<dots> = x" by simp
  finally show ?thesis by (simp only: x_def toneCurve_def)
qed




lemma toneAt_black:
  "toneAt (u8 blackHeap (data blackImage)) 1000 0 = Some (tonePixel 1000 0 0 0)"
proof -
  have "toneAt [0, 0, 0, 255] 1000 0 =
     Some (tonePixel 1000 (real (unat ([0, 0, 0, 255 :: byte] ! (0 * 4))) / 255)
       (real (unat ([0, 0, 0, 255 :: byte] ! (0 * 4 + 1))) / 255)
       (real (unat ([0, 0, 0, 255 :: byte] ! (0 * 4 + 2))) / 255))"
    by (rule toneAt_in_range) simp
  then show ?thesis
    by (simp add: blackHeap_def blackImage_def)
qed

lemma lum_black: "fround32 (lum (tonePixel 1000 0 0 0)) = 0"
proof -
  have "lum (tonePixel 1000 0 0 0) = toneCurve 1000 0" by (rule lum_gray)
  also have "\<dots> = 1 / (1 + exp 500)" by (simp add: toneCurve_def)
  finally have l: "lum (tonePixel 1000 0 0 0) = 1 / (1 + exp 500)" .
  have "(2::real) ^ 150 \<le> 2 ^ 500" by (rule power_increasing) simp_all
  then have "(2::real) ^ 150 < 1 + exp 500" using exp_500_ge by linarith
  then have "1 / (1 + exp 500) < 1 / (2::real) ^ 150"
    by (intro divide_strict_left_mono) simp_all
  moreover have "0 < 1 / (1 + exp (500::real))"
    by (intro divide_pos_pos add_pos_pos) simp_all
  ultimately show ?thesis
    unfolding l by (intro fround32_underflow)
qed




lemma combinePixel_random:
  assumes "grainStrength params = 0"
  shows "combinePixel (P\<lparr>random := r\<rparr>) params flt glow i = combinePixel P params flt glow i"
  by (simp add: combinePixel_def preClamp_def Let_def assms split: option.split)

lemma heapAfter_random:
  assumes "grainStrength params = 0"
  shows "heapAfter (P\<lparr>random := r\<rparr>) imgData w h params hp0 = heapAfter P imgData w h params hp0"
proof -
  have g: "glowBlurred (P\<lparr>random := r\<rparr>) px w h params = glowBlurred P px w h params" for px
    by (simp add: glowBlurred_def)
  have e: "combinePixel (P\<lparr>random := r\<rparr>) params flt glow = combinePixel P params flt glow"
    for flt glow
    by (rule ext) (rule combinePixel_random[OF assms])
  have c: "combined (P\<lparr>random := r\<rparr>) px w h params = combined P px w h params" for px
    by (simp add: combined_def g e)
  have s: "softBlurred (P\<lparr>random := r\<rparr>) px w h params = softBlurred P px w h params" for px
    by (simp add: softBlurred_def c)
  have b: "blended (P\<lparr>random := r\<rparr>) px w h params = blended P px w h params" for px
    by (simp add: blended_def c s)
  show ?thesis
    by (simp add: heapAfter_def g c s b)
qed

lemma applyFilmLook_outcome:
  "applyFilmLook P imgData w h params hp0 =
     (if \<not> getContext2d P then (Inl ContextUnavailable, heapAtBlur imgData w h params hp0)
      else if w = 0 \<or> h = 0 then (Inl DOMException, heapAtBlur imgData w h params hp0)
      else (Inr \<lparr>data = nextRef hp0 + 4, width = w, height = h\<rparr>, heapAfter P imgData w h params hp0))"
proof (cases "getContext2d P")
  case False
  then show ?thesis by (simp add: applyFilmLook_no_context)
next
  case True
  show ?thesis
  proof (cases "w = 0 \<or> h = 0")
    case True
    with \<open>getContext2d P\<close> show ?thesis
      using applyFilmLook_empty[of P w h imgData params hp0] by simp
  next
    case False
    then have "0 < w" "0 < h" by simp_all
    with \<open>getContext2d P\<close> False show ?thesis
      using applyFilmLook_run[of P w h imgData params hp0] by simp
  qed
qed

section \<open>The claims\<close>

text \<open>
  C1. With \<open>glowStrength = 0\<close>, \<open>grainStrength = 0\<close> and \<open>softFocusStrength = 0\<close>, on
  a valid input and a browser that gives a 2D context, the pipeline returns, and the pixel
  data of its result is the output of the tone stage at the 8-bit boundary, byte for byte:
  the glow blur and the soft-focus blur may give back anything, and \<^verbatim>\<open>Math.random()\<close>
  may return anything.
\<close>

theorem plain_output_is_tone_output:
  assumes "glowStrength params = 0" and "grainStrength params = 0" and "softFocusStrength params = 0"
    and "validInput hp0 imgData w h" and "getContext2d P"
  shows "fst (applyFilmLook P imgData w h params hp0) =
           Inr \<lparr>data = nextRef hp0 + 4, width = w, height = h\<rparr> \<and>
         u8 (snd (applyFilmLook P imgData w h params hp0)) (nextRef hp0 + 4) =
           toneOutput8 (u8 hp0 (data imgData)) w h (toneA params)"
proof -
  have "0 < w" "0 < h" using assms(4) by (simp_all add: validInput_def)
  with assms(5) have "applyFilmLook P imgData w h params hp0 =
     (Inr \<lparr>data = nextRef hp0 + 4, width = w, height = h\<rparr>, heapAfter P imgData w h params hp0)"
    by (intro applyFilmLook_run)
  then show ?thesis
    by (simp add: blended_sharp[OF assms(3)] combined_plain[OF assms(1,2)])
qed

theorem plain_output_is_tone_output_witness:
  "glowStrength plainParams = 0 \<and> grainStrength plainParams = 0 \<and> softFocusStrength plainParams = 0 \<and>
   validInput grayHeap grayImage 1 1 \<and> getContext2d identityCanvas \<and>
   fst (applyFilmLook identityCanvas grayImage 1 1 plainParams grayHeap) =
     Inr \<lparr>data = 5, width = 1, height = 1\<rparr> \<and>
   u8 (snd (applyFilmLook identityCanvas grayImage 1 1 plainParams grayHeap)) 5 =
     toneOutput8 [128, 128, 128, 255] 1 1 5"
proof -
  have p: "glowStrength plainParams = 0" "grainStrength plainParams = 0" "softFocusStrength plainParams = 0"
    by (simp_all add: plainParams_def)
  have c: "getContext2d identityCanvas" by (simp add: identityCanvas_def)
  have e: "nextRef grayHeap + 4 = 5" "u8 grayHeap (data grayImage) = [128, 128, 128, 255]"
    "toneA plainParams = 5"
    by (simp_all add: grayHeap_def grayImage_def plainParams_def defaultParams_def)
  show ?thesis
    using p c validInput_gray plain_output_is_tone_output[OF p validInput_gray c]
    by (simp add: e)
qed





text \<open>
  C5, as amended. On a valid input the luminance \<^verbatim>\<open>lum[i]\<close> holds lies between 0 and 1,
  both included, so a threshold of at least 1 makes every colour byte of the mask 0. When
  \<open>toneA\<close> is at most 10 in absolute value (its documented range is 1 to 10), the stored
  luminance lies strictly between 0 and 1, and a threshold of at most 0 makes every
  colour byte of the mask 255. Without the bound the stored luminance can be 0: the
  counterexample is a black pixel at \<open>toneA = 1000\<close> and threshold 0, whose luminance is
  below half the smallest binary32 value and whose mask bytes are 0.
\<close>

theorem mask_threshold_extremes:
  assumes "validInput hp0 imgData w h" and "i < w * h" and "k < 3"
  shows "\<exists>t. float32At (u8 hp0 (data imgData)) (toneA params) i = Some t \<and>
     0 \<le> lum t \<and> lum t \<le> 1 \<and>
     (1 \<le> glowThreshold params \<longrightarrow>
        u8 (snd (applyFilmLook P imgData w h params hp0)) (nextRef hp0) ! (i * 4 + k) = 0) \<and>
     (\<bar>toneA params\<bar> \<le> 10 \<longrightarrow>
        0 < lum t \<and> lum t < 1 \<and>
        (glowThreshold params \<le> 0 \<longrightarrow>
           u8 (snd (applyFilmLook P imgData w h params hp0)) (nextRef hp0) ! (i * 4 + k) = 255))"
proof -
  have "i * 4 + 2 < length (u8 hp0 (data imgData))"
    using assms(1,2) by (simp add: validInput_def)
  then obtain t0 where "toneAt (u8 hp0 (data imgData)) (toneA params) i = Some t0"
    using toneAt_in_range by blast
  then obtain t where t: "float32At (u8 hp0 (data imgData)) (toneA params) i = Some t"
    by (simp add: float32At_def)
  from float32At_lum_unit[OF t] have u: "0 \<le> lum t" "lum t \<le> 1" by simp_all
  have m: "u8 (snd (applyFilmLook P imgData w h params hp0)) (nextRef hp0) ! (i * 4 + k) =
      (if glowThreshold params < lum t then 255 else 0)"
    using assms(2,3) by (simp add: mask_of_run glowMask_nth t)
  have hi: "u8 (snd (applyFilmLook P imgData w h params hp0)) (nextRef hp0) ! (i * 4 + k) = 0"
    if "1 \<le> glowThreshold params"
    using that u m by simp
  have lo: "0 < lum t \<and> lum t < 1 \<and>
      (glowThreshold params \<le> 0 \<longrightarrow>
         u8 (snd (applyFilmLook P imgData w h params hp0)) (nextRef hp0) ! (i * 4 + k) = 255)"
    if "\<bar>toneA params\<bar> \<le> 10"
    using float32At_lum_moderate[OF t that] m by simp
  from t u hi lo show ?thesis by blast
qed

theorem mask_threshold_extremes_witness:
  "validInput grayHeap grayImage 1 1 \<and> (0::nat) < 1 * 1 \<and> (0::nat) < 3 \<and>
   1 \<le> glowThreshold noGlowParams \<and>
   u8 (snd (applyFilmLook identityCanvas grayImage 1 1 noGlowParams grayHeap)) 1 ! 0 = 0 \<and>
   \<bar>toneA allGlowParams\<bar> \<le> 10 \<and> glowThreshold allGlowParams \<le> 0 \<and>
   u8 (snd (applyFilmLook identityCanvas grayImage 1 1 allGlowParams grayHeap)) 1 ! 0 = 255"
proof -
  have h1: "(0::nat) < 1 * 1" and h2: "(0::nat) < 3" by simp_all
  have g1: "1 \<le> glowThreshold noGlowParams" by (simp add: noGlowParams_def)
  have g0: "glowThreshold allGlowParams \<le> 0" by (simp add: allGlowParams_def)
  have a0: "\<bar>toneA allGlowParams\<bar> \<le> 10" by (simp add: allGlowParams_def defaultParams_def)
  have n: "nextRef grayHeap = 1" by (simp add: grayHeap_def)
  from mask_threshold_extremes[OF validInput_gray h1 h2, of noGlowParams identityCanvas]
  have m1: "u8 (snd (applyFilmLook identityCanvas grayImage 1 1 noGlowParams grayHeap)) 1 ! 0 = 0"
    using g1 by (auto simp: n)
  from mask_threshold_extremes[OF validInput_gray h1 h2, of allGlowParams identityCanvas]
  have m0: "u8 (snd (applyFilmLook identityCanvas grayImage 1 1 allGlowParams grayHeap)) 1 ! 0 = 255"
    using g0 a0 by (auto simp: n)
  show ?thesis
    using validInput_gray g1 g0 a0 m1 m0 by simp
qed

theorem mask_threshold_extremes_counterexample:
  "validInput blackHeap blackImage 1 1 \<and> glowThreshold steepParams \<le> 0 \<and>
   map_option lum (float32At (u8 blackHeap (data blackImage)) (toneA steepParams) 0) = Some 0 \<and>
   u8 (snd (applyFilmLook identityCanvas blackImage 1 1 steepParams blackHeap)) 1 ! 0 = 0"
proof -
  have v: "validInput blackHeap blackImage 1 1"
    by (simp add: validInput_def blackHeap_def blackImage_def)
  have g: "glowThreshold steepParams = 0" and a: "toneA steepParams = 1000"
    by (simp_all add: steepParams_def)
  have f: "float32At (u8 blackHeap (data blackImage)) (toneA steepParams) 0 =
      Some (storeFloat32 (tonePixel 1000 0 0 0))"
    unfolding a by (simp add: float32At_def toneAt_black)
  have l: "lum (storeFloat32 (tonePixel 1000 0 0 0)) = 0"
    by (simp add: storeFloat32_def lum_black)
  have n: "nextRef blackHeap = 1" by (simp add: blackHeap_def)
  have "glowMask (u8 blackHeap (data blackImage)) 1 1 steepParams ! (0 * 4 + 0) =
      (case float32At (u8 blackHeap (data blackImage)) (toneA steepParams) 0 of None \<Rightarrow> 0
       | Some t \<Rightarrow> if lum t > glowThreshold steepParams then 255 else 0)"
    by (rule glowMask_nth) simp_all
  then have "glowMask (u8 blackHeap (data blackImage)) 1 1 steepParams ! 0 = 0"
    by (simp add: f l g)
  moreover have "u8 (snd (applyFilmLook identityCanvas blackImage 1 1 steepParams blackHeap)) 1 =
      glowMask (u8 blackHeap (data blackImage)) 1 1 steepParams"
    using mask_of_run[of identityCanvas blackImage 1 1 steepParams blackHeap] by (simp only: n)
  ultimately show ?thesis
    using v by (simp add: f l g)
qed



text \<open>
  C7. On a valid input and a browser that gives a 2D context, for every parameter set, the
  pipeline returns an image of the width and height of the input whose pixel data has
  exactly width * height * 4 bytes.
\<close>

theorem dimensions_preserved:
  assumes "validInput hp0 imgData w h" and "getContext2d P"
  shows "fst (applyFilmLook P imgData w h params hp0) =
           Inr \<lparr>data = nextRef hp0 + 4, width = width imgData, height = height imgData\<rparr> \<and>
         length (u8 (snd (applyFilmLook P imgData w h params hp0)) (nextRef hp0 + 4)) =
           width imgData * height imgData * 4"
proof -
  have v: "0 < w" "0 < h" "width imgData = w" "height imgData = h"
    using assms(1) by (simp_all add: validInput_def)
  with assms(2) have "applyFilmLook P imgData w h params hp0 =
     (Inr \<lparr>data = nextRef hp0 + 4, width = w, height = h\<rparr>, heapAfter P imgData w h params hp0)"
    by (intro applyFilmLook_run)
  then show ?thesis
    by (simp add: v)
qed

theorem dimensions_preserved_witness:
  "validInput grayHeap grayImage 1 1 \<and> getContext2d identityCanvas \<and>
   fst (applyFilmLook identityCanvas grayImage 1 1 defaultParams grayHeap) =
     Inr \<lparr>data = 5, width = 1, height = 1\<rparr> \<and>
   length (u8 (snd (applyFilmLook identityCanvas grayImage 1 1 defaultParams grayHeap)) 5) = 4"
proof -
  have c: "getContext2d identityCanvas" by (simp add: identityCanvas_def)
  have e: "nextRef grayHeap + 4 = 5" "width grayImage = 1" "height grayImage = 1"
    by (simp_all add: grayHeap_def grayImage_def)
  show ?thesis
    using c validInput_gray dimensions_preserved[OF validInput_gray c, of defaultParams]
    by (simp add: e)
qed

text \<open>
  C8. Running the pipeline leaves the input buffer's pixel data unchanged: whatever the
  parameters, the dimensions and the browser, and whether the call returns or throws, the
  array that \<open>imgData\<close> refers to holds the same bytes afterwards, provided it is an
  array of the heap (as the buffer of every valid input is). Every write of the run goes
  to an array the run allocated.
\<close>

theorem input_unchanged:
  assumes "data imgData < nextRef hp0"
  shows "u8 (snd (applyFilmLook P imgData w h params hp0)) (data imgData) = u8 hp0 (data imgData)"
  using assms by (rule applyFilmLook_heap_old)

theorem input_unchanged_witness:
  "data grayImage < nextRef grayHeap \<and>
   u8 (snd (applyFilmLook identityCanvas grayImage 1 1 defaultParams grayHeap)) 0 = [128, 128, 128, 255]"
proof -
  have h: "data grayImage < nextRef grayHeap"
    by (simp add: grayImage_def grayHeap_def)
  have "u8 grayHeap (data grayImage) = [128, 128, 128, 255]" "data grayImage = 0"
    by (simp_all add: grayImage_def grayHeap_def)
  with h input_unchanged[OF h, of identityCanvas 1 1 defaultParams] show ?thesis
    by simp
qed

text \<open>
  C9, as amended. The pipeline validates nothing itself and has no InvalidDimensions
  error. Whether a call returns depends on \<open>w\<close>, \<open>h\<close> and the browser alone, never on
  the length of the pixel buffer: with \<open>w = 0\<close> or \<open>h = 0\<close> it throws (the canvas
  rejects the empty mask in the glow blur, or there is no 2D context) and returns no
  image; with positive \<open>w\<close> and \<open>h\<close> and a 2D context it returns a \<open>w\<close> by \<open>h\<close>
  image, whatever the buffer's length. The counterexample calls it with \<open>w = h = 1\<close>
  on the 8 bytes of a 2 by 1 image.
\<close>

theorem outcome_ignores_buffer_length:
  "fst (applyFilmLook P imgData w h params hp0) =
     (if getContext2d P
      then (if w = 0 \<or> h = 0 then Inl DOMException
            else Inr \<lparr>data = nextRef hp0 + 4, width = w, height = h\<rparr>)
      else Inl ContextUnavailable)"
  by (simp add: applyFilmLook_outcome)

theorem invalid_dimensions_counterexample:
  "length (u8 wideHeap (data wideImage)) \<noteq> 1 * 1 * 4 \<and>
   fst (applyFilmLook identityCanvas wideImage 1 1 sharpParams wideHeap) =
     Inr \<lparr>data = 5, width = 1, height = 1\<rparr>"
proof -
  have "getContext2d identityCanvas" by (simp add: identityCanvas_def)
  then have "applyFilmLook identityCanvas wideImage 1 1 sharpParams wideHeap =
     (Inr \<lparr>data = nextRef wideHeap + 4, width = 1, height = 1\<rparr>,
      heapAfter identityCanvas wideImage 1 1 sharpParams wideHeap)"
    by (intro applyFilmLook_run) simp_all
  then show ?thesis
    by (simp add: wideHeap_def wideImage_def)
qed

text \<open>
  C10. With \<open>grainStrength = 0\<close> the result and the heap of a run do not depend on what
  \<^verbatim>\<open>Math.random()\<close> returns: two runs on the same input, parameters and browser that
  differ only in their random numbers end the same.
\<close>

theorem deterministic_without_grain:
  assumes "grainStrength params = 0"
  shows "applyFilmLook (P\<lparr>random := r1\<rparr>) imgData w h params hp0 =
         applyFilmLook (P\<lparr>random := r2\<rparr>) imgData w h params hp0"
  by (simp add: applyFilmLook_outcome heapAfter_random[OF assms])

theorem deterministic_without_grain_witness:
  "grainStrength plainParams = 0 \<and>
   applyFilmLook (identityCanvas\<lparr>random := (\<lambda>i. 0)\<rparr>) grayImage 1 1 plainParams grayHeap =
   applyFilmLook (identityCanvas\<lparr>random := (\<lambda>i. 9 / 10)\<rparr>) grayImage 1 1 plainParams grayHeap"
proof -
  have h: "grainStrength plainParams = 0" by (simp add: plainParams_def)
  show ?thesis
    using h deterministic_without_grain[OF h, where P = identityCanvas and imgData = grayImage
        and w = 1 and h = 1 and ?hp0.0 = grayHeap and ?r1.0 = "\<lambda>i. 0" and ?r2.0 = "\<lambda>i. 9 / 10"]
    by simp
qed

end
